theory Spec2Isabelle
  imports Complex_Main
begin

section \<open>Conventions of the embedding\<close>

text \<open>
  The repository is Python. Its \<^verbatim>\<open>float\<close> values are embedded as \<^typ>\<open>real\<close>: arithmetic is
  exact, so rounding, overflow to infinity and NaN are outside the model. Python \<^verbatim>\<open>int\<close>
  values are \<^typ>\<open>int\<close>, strings are \<^typ>\<open>string\<close>, dictionaries with a fixed set of keys are
  records, and lists are lists. Calendar dates are their proleptic ordinals (an \<^typ>\<open>int\<close>),
  so that the difference of two dates in days is a subtraction.

  Every operation of the source that can raise on real arguments is a branch of the model:
  a function that can raise returns \<open>py_error + 'a\<close>, with \<open>Inl\<close> for the exception.
  Calls of \<^verbatim>\<open>self.log\<close> only print and are left out.
\<close>

datatype py_error = ZeroDivisionError | ValueError | TypeError | OverflowError | IndexError

definition and_then :: "py_error + 'a \<Rightarrow> ('a \<Rightarrow> py_error + 'b) \<Rightarrow> py_error + 'b" where
  "and_then m f = (case m of Inl e \<Rightarrow> Inl e | Inr v \<Rightarrow> f v)"

text \<open>Float division, \<^verbatim>\<open>math.log\<close> and \<^verbatim>\<open>math.sqrt\<close> with the exceptions Python raises.\<close>

definition py_div :: "real \<Rightarrow> real \<Rightarrow> py_error + real" where
  "py_div a b = (if b = 0 then Inl ZeroDivisionError else Inr (a / b))"

definition py_log :: "real \<Rightarrow> py_error + real" where
  "py_log x = (if x \<le> 0 then Inl ValueError else Inr (ln x))"

definition py_sqrt :: "real \<Rightarrow> py_error + real" where
  "py_sqrt x = (if x < 0 then Inl ValueError else Inr (sqrt x))"

text \<open>
  \<^verbatim>\<open>str.lower\<close> on the ASCII letters; every other character is left as it is. No
  character outside ASCII lowers to one of the letters of \<^verbatim>\<open>call\<close>.
\<close>

definition lower_char :: "char \<Rightarrow> char" where
  "lower_char c =
     (case map_of (zip ''ABCDEFGHIJKLMNOPQRSTUVWXYZ'' ''abcdefghijklmnopqrstuvwxyz'') c of
        Some d \<Rightarrow> d
      | None \<Rightarrow> c)"

definition lower :: "string \<Rightarrow> string" where
  "lower s = map lower_char s"

text \<open>
  Python's \<^verbatim>\<open>round(x, ndigits)\<close> on a float (and numpy's, for a \<^verbatim>\<open>numpy.float64\<close>): the
  nearest multiple of \<open>10 ^ -ndigits\<close>, a tie going to the even one.
\<close>

definition rint :: "real \<Rightarrow> int" where
  "rint x =
     (let f = \<lfloor>x\<rfloor>; d = x - of_int f
      in if d < 1 / 2 then f else if 1 / 2 < d then f + 1 else if even f then f else f + 1)"

definition py_round :: "real \<Rightarrow> nat \<Rightarrow> real" where
  "py_round x ndigits = of_int (rint (x * 10 ^ ndigits)) / 10 ^ ndigits"

section \<open>The standard normal distribution (scipy.stats.norm)\<close>

text \<open>
  \<^verbatim>\<open>norm.pdf\<close> and \<^verbatim>\<open>norm.cdf\<close> belong to scipy, not to the repository. The density is
  its closed form; the distribution function is its Maclaurin series
  \<open>1/2 + (1 / sqrt (2 pi)) * (\<Sum>n. (-1)^n x^(2n+1) / (2^n n! (2n+1)))\<close>, which converges
  for every \<open>x\<close>.
\<close>

definition norm_pdf :: "real \<Rightarrow> real" where
  "norm_pdf x = exp (- (x\<^sup>2) / 2) / sqrt (2 * pi)"

definition cdf_term :: "real \<Rightarrow> nat \<Rightarrow> real" where
  "cdf_term x n = (- 1) ^ n * x ^ (2 * n + 1) / (2 ^ n * fact n * real (2 * n + 1))"

definition norm_cdf :: "real \<Rightarrow> real" where
  "norm_cdf x = 1 / 2 + (\<Sum>n. cdf_term x n) / sqrt (2 * pi)"

section \<open>utils/options\_pricing.py\<close>

subsection \<open>black\_scholes\<close>

definition black_scholes ::
  "real \<Rightarrow> real \<Rightarrow> real \<Rightarrow> real \<Rightarrow> real \<Rightarrow> string \<Rightarrow> py_error + real" where
  "black_scholes S K T r sigma option_type =
     (if S \<le> 0 \<or> K \<le> 0 \<or> T \<le> 0 \<or> sigma \<le> 0 then Inr 0
      else
        and_then (py_div S K) (\<lambda>q.
        and_then (py_log q) (\<lambda>lg.
        and_then (py_sqrt T) (\<lambda>sq.
        and_then (py_div (lg + (r + sigma\<^sup>2 / 2) * T) (sigma * sq)) (\<lambda>d1.
        and_then (py_sqrt T) (\<lambda>sq'.
          let d2 = d1 - sigma * sq' in
          if lower option_type = ''call''
          then Inr (S * norm_cdf d1 - K * exp (- r * T) * norm_cdf d2)
          else Inr (K * exp (- r * T) * norm_cdf (- d2) - S * norm_cdf (- d1))))))))"

subsection \<open>calculate\_greeks\<close>

record greeks =
  delta :: real
  gamma :: real
  theta :: real
  vega :: real
  rho :: real

definition calculate_greeks ::
  "real \<Rightarrow> real \<Rightarrow> real \<Rightarrow> real \<Rightarrow> real \<Rightarrow> string \<Rightarrow> py_error + greeks" where
  "calculate_greeks S K T r sigma option_type =
     (if S \<le> 0 \<or> K \<le> 0 \<or> T \<le> 0 \<or> sigma \<le> 0
      then Inr \<lparr>delta = 0, gamma = 0, theta = 0, vega = 0, rho = 0\<rparr>
      else
        and_then (py_sqrt T) (\<lambda>sqrt_t.
        and_then (py_div S K) (\<lambda>q.
        and_then (py_log q) (\<lambda>lg.
        and_then (py_div (lg + (r + sigma\<^sup>2 / 2) * T) (sigma * sqrt_t)) (\<lambda>d1.
          let d2 = d1 - sigma * sqrt_t;
              n_d1 = norm_pdf d1;
              n_d2 = norm_pdf d2;
              is_call = (lower option_type = ''call'');
              delta' = (if is_call then norm_cdf d1 else - norm_cdf (- d1))
          in
          and_then (py_div n_d1 (S * sigma * sqrt_t)) (\<lambda>gamma'.
          and_then (py_div (S * sigma * n_d1) (2 * sqrt_t)) (\<lambda>t1.
            let term1 = - t1;
                theta0 =
                  (if is_call then term1 - r * K * exp (- r * T) * norm_cdf d2
                   else term1 + r * K * exp (- r * T) * norm_cdf (- d2));
                theta' = theta0 / 365;
                vega' = S * sqrt_t * n_d1 / 100;
                rho' =
                  (if is_call then K * T * exp (- r * T) * norm_cdf d2 / 100
                   else - K * T * exp (- r * T) * norm_cdf (- d2) / 100)
            in Inr \<lparr>delta = delta', gamma = gamma', theta = theta', vega = vega',
                     rho = rho'\<rparr>)))))))"

text \<open>The terms \<open>d1\<close> and \<open>d2\<close> of the closed form, for stating results.\<close>

definition bs_d1 :: "real \<Rightarrow> real \<Rightarrow> real \<Rightarrow> real \<Rightarrow> real \<Rightarrow> real" where
  "bs_d1 S K T r sigma = (ln (S / K) + (r + sigma\<^sup>2 / 2) * T) / (sigma * sqrt T)"

definition bs_d2 :: "real \<Rightarrow> real \<Rightarrow> real \<Rightarrow> real \<Rightarrow> real \<Rightarrow> real" where
  "bs_d2 S K T r sigma = bs_d1 S K T r sigma - sigma * sqrt T"

subsection \<open>calculate\_iv\<close>






subsection \<open>simulate\_option\_chain\<close>

record option_contract =
  strike :: real
  price :: real
  delta :: real
  gamma :: real
  theta :: real
  vega :: real
  intrinsic :: real

record option_chain =
  calls :: "option_contract list"
  puts :: "option_contract list"

text \<open>\<^verbatim>\<open>numpy.linspace(start, stop, num)\<close>: \<open>num\<close> points, the end point included.\<close>

definition linspace :: "real \<Rightarrow> real \<Rightarrow> nat \<Rightarrow> real list" where
  "linspace start stop num =
     map (\<lambda>i. start + real i * ((stop - start) / real (num - 1))) [0..<num]"

definition chain_strikes :: "real \<Rightarrow> real list" where
  "chain_strikes underlying_price =
     (let strike_range = linspace (underlying_price * (8 / 10)) (underlying_price * (12 / 10)) 9
      in map (\<lambda>strike. py_round strike 2) strike_range)"

fun chain_loop ::
  "real \<Rightarrow> real \<Rightarrow> real \<Rightarrow> real \<Rightarrow> real list \<Rightarrow> option_chain \<Rightarrow> py_error + option_chain" where
  "chain_loop underlying_price T risk_free_rate volatility [] options_chain = Inr options_chain"
| "chain_loop underlying_price T risk_free_rate volatility (strike' # rest) options_chain =
     and_then (black_scholes underlying_price strike' T risk_free_rate volatility ''call'')
       (\<lambda>call_price.
     and_then (calculate_greeks underlying_price strike' T risk_free_rate volatility ''call'')
       (\<lambda>call_greeks.
     and_then (black_scholes underlying_price strike' T risk_free_rate volatility ''put'')
       (\<lambda>put_price.
     and_then (calculate_greeks underlying_price strike' T risk_free_rate volatility ''put'')
       (\<lambda>put_greeks.
       chain_loop underlying_price T risk_free_rate volatility rest
         \<lparr>calls = calls options_chain @
            [\<lparr>strike = strike',
              price = py_round call_price 2,
              delta = py_round (greeks.delta call_greeks) 4,
              gamma = py_round (greeks.gamma call_greeks) 4,
              theta = py_round (greeks.theta call_greeks) 4,
              vega = py_round (greeks.vega call_greeks) 2,
              intrinsic = py_round (max 0 (underlying_price - strike')) 2\<rparr>],
          puts = puts options_chain @
            [\<lparr>strike = strike',
              price = py_round put_price 2,
              delta = py_round (greeks.delta put_greeks) 4,
              gamma = py_round (greeks.gamma put_greeks) 4,
              theta = py_round (greeks.theta put_greeks) 4,
              vega = py_round (greeks.vega put_greeks) 2,
              intrinsic = py_round (max 0 (strike' - underlying_price)) 2\<rparr>]\<rparr>))))"

definition simulate_option_chain ::
  "real \<Rightarrow> int \<Rightarrow> real \<Rightarrow> real \<Rightarrow> py_error + option_chain" where
  "simulate_option_chain underlying_price days_to_expiry volatility risk_free_rate =
     (let T = real_of_int days_to_expiry / 365;
          strikes = chain_strikes underlying_price
      in chain_loop underlying_price T risk_free_rate volatility strikes
           \<lparr>calls = [], puts = []\<rparr>)"

section \<open>strategies/put\_selling\_strategy.py\<close>

text \<open>
  The module's enum \<^verbatim>\<open>OptionPositionType\<close>; its members carry the prefix \<open>PUT_\<close> where
  the iron condor module has a member of the same name.
\<close>

datatype PutOptionPositionType = PUT_NONE | SHORT_PUT | LONG_PUT | SHORT_CALL | LONG_CALL

text \<open>The \<^verbatim>\<open>params\<close> of \<^verbatim>\<open>PutSellingStrategy\<close> and their defaults.\<close>

record put_params =
  ma_period :: int
  put_delta :: real
  days_to_expiry :: int
  risk_percentage :: real
  profit_target_pct :: real


record trade_info =
  entry_date :: "int option"
  exit_date :: int
  days_held :: int
  strike :: real
  premium :: real
  profit :: real
  profit_pct :: real
  contracts :: int
  total_profit :: real

text \<open>
  The fields of a \<^verbatim>\<open>PutSellingStrategy\<close>. \<open>active_option\<close> is \<^verbatim>\<open>None\<close> or \<^verbatim>\<open>True\<close>; a date
  field is \<^verbatim>\<open>None\<close> or a date.
\<close>

record put_state =
  active_option :: "bool option"
  option_type :: PutOptionPositionType
  entry_price :: real
  strike_price :: real
  expiry_date :: "int option"
  entry_date :: "int option"
  num_contracts :: int
  trades :: "trade_info list"
  total_premium :: real
  trade_count :: int
  winning_trades :: int
  losing_trades :: int
  equity_curve :: "real list"
  returns :: "real list"
  dates :: "int list"

text \<open>
  \<^verbatim>\<open>date + timedelta(days=n)\<close> on ordinals: Python raises \<^verbatim>\<open>OverflowError\<close> when the result
  leaves the years 1 to 9999 (the ordinals 1 to 3652059).
\<close>

definition date_add_days :: "int \<Rightarrow> int \<Rightarrow> py_error + int" where
  "date_add_days d n = (if 1 \<le> d + n \<and> d + n \<le> 3652059 then Inr (d + n) else Inl OverflowError)"


section \<open>strategies/iron\_condor\_strategy.py\<close>

datatype OptionPositionType = NONE | IRON_CONDOR | IRON_BUTTERFLY | CALENDAR_SPREAD

text \<open>The \<^verbatim>\<open>params\<close> of \<^verbatim>\<open>IronCondorStrategy\<close> and their defaults.\<close>

record params =
  put_delta :: real
  put_width :: real
  call_delta :: real
  call_width :: real
  days_to_expiry :: int
  risk_percentage :: real
  exit_days_left :: int
  profit_target_pct :: real
  loss_stop_pct :: real
  iv_rank_min :: real
  atr_period :: int

definition default_params :: params where
  "default_params =
     \<lparr>put_delta = 3 / 10, put_width = 1 / 10, call_delta = 3 / 10, call_width = 1 / 10,
      days_to_expiry = 30, risk_percentage = 2 / 100, exit_days_left = 5,
      profit_target_pct = 1 / 2, loss_stop_pct = 2, iv_rank_min = 3 / 10, atr_period = 14\<rparr>"

text \<open>
  The fields of an \<^verbatim>\<open>IronCondorStrategy\<close>. \<open>active_options\<close> is \<^verbatim>\<open>None\<close> or \<^verbatim>\<open>True\<close>. The
  ATR indicator belongs to backtrader: its current value \<^verbatim>\<open>self.atr[0]\<close> and its buffer
  \<^verbatim>\<open>self.atr.array\<close> are arguments of the methods that read them.
\<close>

record state =
  close_hist :: "real list"
  active_options :: "bool option"
  option_type :: OptionPositionType
  entry_date :: "int option"
  expiry_date :: "int option"
  short_put_strike :: real
  long_put_strike :: real
  short_call_strike :: real
  long_call_strike :: real
  max_profit :: real
  max_loss :: real
  entry_credit :: real
  hv_20 :: real
  iv_estimate :: real
  iv_rank :: real

text \<open>\<^verbatim>\<open>__init__\<close>.\<close>

definition init :: state where
  "init =
     \<lparr>close_hist = [], active_options = None, option_type = NONE, entry_date = None,
      expiry_date = None, short_put_strike = 0, long_put_strike = 0, short_call_strike = 0,
      long_call_strike = 0, max_profit = 0, max_loss = 0, entry_credit = 0, hv_20 = 0,
      iv_estimate = 0, iv_rank = 0\<rparr>"

subsection \<open>calculate\_historical\_volatility\<close>

text \<open>\<^verbatim>\<open>xs[-i]\<close> for \<open>i\<close> from 1: the \<open>i\<close>-th element from the end.\<close>

definition from_end :: "'a list \<Rightarrow> nat \<Rightarrow> py_error + 'a" where
  "from_end xs i =
     (if 1 \<le> i \<and> i \<le> length xs then Inr (xs ! (length xs - i)) else Inl IndexError)"

text \<open>The loop \<^verbatim>\<open>for i in range(1, 20)\<close> that collects the daily log returns.\<close>

fun returns_loop :: "real list \<Rightarrow> nat list \<Rightarrow> real list \<Rightarrow> py_error + real list" where
  "returns_loop hist [] rets = Inr rets"
| "returns_loop hist (i # rest) rets =
     and_then (from_end hist i) (\<lambda>a.
     and_then (from_end hist (i + 1)) (\<lambda>b.
     and_then (py_div a b) (\<lambda>q.
     and_then (py_log q) (\<lambda>daily_return.
       returns_loop hist rest (rets @ [daily_return])))))"

definition calculate_historical_volatility :: "state \<Rightarrow> py_error + state" where
  "calculate_historical_volatility s =
     (if length (close_hist s) < 20 then Inr s
      else
        and_then (returns_loop (close_hist s) [1..<20] []) (\<lambda>rets.
        and_then (py_div (sum_list rets) (real (length rets))) (\<lambda>mean_return.
        and_then (py_div (sum_list (map (\<lambda>r. (r - mean_return)\<^sup>2) rets)) (real (length rets)))
          (\<lambda>variance.
        and_then (py_sqrt variance) (\<lambda>daily_vol.
        and_then (py_sqrt 252) (\<lambda>annual.
          Inr (s\<lparr>hv_20 := daily_vol * annual\<rparr>)))))))"

subsection \<open>estimate\_implied\_volatility\<close>

text \<open>
  \<open>atr0\<close> is \<^verbatim>\<open>self.atr[0]\<close>, \<open>data0\<close> is \<^verbatim>\<open>self.data[0]\<close> and \<open>atr_array\<close> is
  \<^verbatim>\<open>self.atr.array\<close>; the slice \<^verbatim>\<open>[-20:]\<close> keeps the last 20 entries, or all of a shorter
  buffer.
\<close>

definition estimate_implied_volatility ::
  "state \<Rightarrow> real \<Rightarrow> real \<Rightarrow> real list \<Rightarrow> py_error + state" where
  "estimate_implied_volatility s atr0 data0 atr_array =
     (if length (close_hist s) < 20 then Inr s
      else
        and_then (py_div atr0 data0) (\<lambda>atr_vol.
        and_then (py_sqrt 252) (\<lambda>annual.
          let s1 = s\<lparr>iv_estimate := atr_vol * annual * (1 / 2) + hv_20 s * (1 / 2)\<rparr> in
          if length (close_hist s1) \<ge> 252 then
            and_then (py_div (sum_list (drop (length atr_array - 20) atr_array)) 20) (\<lambda>avg_atr.
            and_then (py_div atr0 (2 * avg_atr)) (\<lambda>ratio.
              Inr (s1\<lparr>iv_rank := min 1 (max 0 ratio)\<rparr>)))
          else Inr s1)))"

subsection \<open>find\_closest\_option\<close>

fun closest_loop ::
  "(option_contract \<Rightarrow> real) \<Rightarrow> real \<Rightarrow> option_contract list \<Rightarrow> option_contract \<Rightarrow> real
     \<Rightarrow> option_contract" where
  "closest_loop key target_value [] closest_option closest_diff = closest_option"
| "closest_loop key target_value (opt # rest) closest_option closest_diff =
     (let diff = \<bar>key opt - target_value\<bar> in
      if diff < closest_diff then closest_loop key target_value rest opt diff
      else closest_loop key target_value rest closest_option closest_diff)"

definition find_closest_option ::
  "option_contract list \<Rightarrow> (option_contract \<Rightarrow> real) \<Rightarrow> real \<Rightarrow> option_contract option" where
  "find_closest_option options_list key target_value =
     (case options_list of
        [] \<Rightarrow> None
      | first # _ \<Rightarrow>
          Some (closest_loop key target_value options_list first \<bar>key first - target_value\<bar>))"

subsection \<open>close\_iron\_condor\<close>

definition close_iron_condor :: "state \<Rightarrow> state" where
  "close_iron_condor s =
     s\<lparr>active_options := None, option_type := NONE, entry_date := None, expiry_date := None,
       short_put_strike := 0, long_put_strike := 0, short_call_strike := 0,
       long_call_strike := 0, max_profit := 0, max_loss := 0, entry_credit := 0\<rparr>"

subsection \<open>manage\_iron\_condor\<close>

text \<open>
  Subscripting \<^verbatim>\<open>None\<close> (a closest option that was not found) and subtracting a date
  from \<^verbatim>\<open>None\<close> raise \<^verbatim>\<open>TypeError\<close>.
\<close>

definition subscript :: "'a option \<Rightarrow> ('a \<Rightarrow> 'b) \<Rightarrow> py_error + 'b" where
  "subscript x key = (case x of None \<Rightarrow> Inl TypeError | Some v \<Rightarrow> Inr (key v))"

definition date_diff_days :: "int option \<Rightarrow> int \<Rightarrow> py_error + int" where
  "date_diff_days d current_date =
     (case d of None \<Rightarrow> Inl TypeError | Some e \<Rightarrow> Inr (e - current_date))"

text \<open>
  The first half of the method: the days left, the current profit and the profit as a
  fraction of the maximum profit.
\<close>

definition position_status :: "state \<Rightarrow> int \<Rightarrow> real \<Rightarrow> py_error + (int \<times> real \<times> real)" where
  "position_status s current_date current_price =
     and_then (date_diff_days (expiry_date s) current_date) (\<lambda>days_left.
       let days_to_expiry' = max 1 days_left;
           risk_free_rate = 2 / 100
       in
       and_then (simulate_option_chain current_price days_to_expiry' (iv_estimate s)
                   risk_free_rate) (\<lambda>options_chain.
         let short_put_option =
               find_closest_option (puts options_chain) option_contract.strike
                 (short_put_strike s);
             long_put_option =
               find_closest_option (puts options_chain) option_contract.strike
                 (long_put_strike s);
             short_call_option =
               find_closest_option (calls options_chain) option_contract.strike
                 (short_call_strike s);
             long_call_option =
               find_closest_option (calls options_chain) option_contract.strike
                 (long_call_strike s)
         in
         and_then (subscript short_put_option price) (\<lambda>short_put_price.
         and_then (subscript long_put_option price) (\<lambda>long_put_price.
         and_then (subscript short_call_option price) (\<lambda>short_call_price.
         and_then (subscript long_call_option price) (\<lambda>long_call_price.
           let current_value =
                 - short_put_price + long_put_price - short_call_price + long_call_price;
               current_profit = entry_credit s - current_value
           in
           and_then (if max_profit s > 0 then py_div current_profit (max_profit s) else Inr 0)
             (\<lambda>profit_pct'.
               Inr (days_left, current_profit, profit_pct'))))))))"

text \<open>
  The second half: the chain of \<^verbatim>\<open>if\<close>, \<^verbatim>\<open>elif\<close>, \<^verbatim>\<open>elif\<close> that sets \<^verbatim>\<open>should_exit\<close> and
  \<^verbatim>\<open>exit_reason\<close>. The three reasons stand for the three messages; \<open>None\<close> is
  \<^verbatim>\<open>should_exit = False\<close>.
\<close>

datatype exit_reason = APPROACHING_EXPIRATION | PROFIT_TARGET_REACHED | STOP_LOSS_TRIGGERED

definition exit_decision :: "params \<Rightarrow> state \<Rightarrow> int \<Rightarrow> real \<Rightarrow> real \<Rightarrow> exit_reason option" where
  "exit_decision p s days_left current_profit profit_pct' =
     (if days_left \<le> exit_days_left p then Some APPROACHING_EXPIRATION
      else if profit_pct' \<ge> profit_target_pct p then Some PROFIT_TARGET_REACHED
      else if current_profit < 0 \<and> \<bar>current_profit\<bar> > max_profit s * loss_stop_pct p
      then Some STOP_LOSS_TRIGGERED
      else None)"

text \<open>
  The method returns nothing; the model returns the new state together with the reason it
  logged when it closed the position.
\<close>

definition manage_iron_condor ::
  "params \<Rightarrow> state \<Rightarrow> int \<Rightarrow> real \<Rightarrow> py_error + (state \<times> exit_reason option)" where
  "manage_iron_condor p s current_date current_price =
     and_then (position_status s current_date current_price)
       (\<lambda>(days_left, current_profit, profit_pct').
          case exit_decision p s days_left current_profit profit_pct' of
            Some reason \<Rightarrow> Inr (close_iron_condor s, Some reason)
          | None \<Rightarrow> Inr (s, None))"

subsection \<open>get\_next\_monthly\_expiration\<close>

text \<open>
  The calendar of \<^verbatim>\<open>datetime.date\<close> on ordinals, as CPython computes it: day 1 is
  1 January of year 1, \<^verbatim>\<open>weekday()\<close> is 0 on a Monday, and \<^verbatim>\<open>date(year, month, day)\<close>
  raises \<^verbatim>\<open>ValueError\<close> outside the years 1 to 9999.
\<close>

definition is_leap :: "int \<Rightarrow> bool" where
  "is_leap y = (y mod 4 = 0 \<and> (y mod 100 \<noteq> 0 \<or> y mod 400 = 0))"

definition days_before_year :: "int \<Rightarrow> int" where
  "days_before_year y = (y - 1) * 365 + (y - 1) div 4 - (y - 1) div 100 + (y - 1) div 400"

text \<open>The length of a month and the days before it, in a leap year or a common year.\<close>

definition month_length :: "bool \<Rightarrow> int \<Rightarrow> int" where
  "month_length leap m =
     (if m = 2 then (if leap then 29 else 28)
      else if m = 4 \<or> m = 6 \<or> m = 9 \<or> m = 11 then 30 else 31)"

definition days_before :: "bool \<Rightarrow> int \<Rightarrow> int" where
  "days_before leap m = (\<Sum>k \<leftarrow> [1..<nat m]. month_length leap (int k))"

definition days_in_month :: "int \<Rightarrow> int \<Rightarrow> int" where
  "days_in_month y m = month_length (is_leap y) m"

definition days_before_month :: "int \<Rightarrow> int \<Rightarrow> int" where
  "days_before_month y m = days_before (is_leap y) m"

definition ymd2ord :: "int \<Rightarrow> int \<Rightarrow> int \<Rightarrow> int" where
  "ymd2ord y m d = days_before_year y + days_before_month y m + d"

definition ord2ymd :: "int \<Rightarrow> int \<times> int \<times> int" where
  "ord2ymd ordinal =
     (let n0 = ordinal - 1;
          n400 = n0 div 146097; n1 = n0 mod 146097;
          n100 = n1 div 36524; n2 = n1 mod 36524;
          n4 = n2 div 1461; n3 = n2 mod 1461;
          n1y = n3 div 365; n = n3 mod 365;
          y = n400 * 400 + 1 + n100 * 100 + n4 * 4 + n1y
      in if n1y = 4 \<or> n100 = 4 then (y - 1, 12, 31)
         else
           (let leapyear = (n1y = 3 \<and> (n4 \<noteq> 24 \<or> n100 = 3));
                m = (n + 50) div 32;
                preceding = days_before leapyear m
            in if preceding > n
               then (y, m - 1, n - (preceding - month_length leapyear (m - 1)) + 1)
               else (y, m, n - preceding + 1)))"

definition date_of_ymd :: "int \<Rightarrow> int \<Rightarrow> int \<Rightarrow> py_error + int" where
  "date_of_ymd y m d =
     (if 1 \<le> y \<and> y \<le> 9999 \<and> 1 \<le> m \<and> m \<le> 12 \<and> 1 \<le> d \<and> d \<le> days_in_month y m
      then Inr (ymd2ord y m d) else Inl ValueError)"

definition weekday :: "int \<Rightarrow> int" where
  "weekday d = (d + 6) mod 7"

definition get_next_monthly_expiration :: "int \<Rightarrow> py_error + int" where
  "get_next_monthly_expiration current_date =
     (case ord2ymd current_date of (cy, cm, cd) \<Rightarrow>
        let year = (if cm = 12 then cy + 1 else cy);
            month = (if cm = 12 then 1 else cm + 1)
        in
        and_then (date_of_ymd year month 1) (\<lambda>first_day.
          let days_to_add = (4 - weekday first_day) mod 7 in
          and_then (date_add_days first_day days_to_add) (\<lambda>first_friday.
            date_add_days first_friday 14)))"

subsection \<open>consider\_new\_iron\_condor\<close>

text \<open>
  The two scans \<^verbatim>\<open>for put in options_chain['puts']\<close> and \<^verbatim>\<open>for call in
  options_chain['calls']\<close>: the first contract whose absolute delta is at most the target.
\<close>

fun first_within_delta :: "option_contract list \<Rightarrow> real \<Rightarrow> option_contract option" where
  "first_within_delta [] target = None"
| "first_within_delta (c # rest) target =
     (if \<bar>option_contract.delta c\<bar> \<le> target then Some c else first_within_delta rest target)"

text \<open>
  \<^verbatim>\<open>math.floor(a / b)\<close> where \<open>b\<close> is a \<^verbatim>\<open>numpy.float64\<close>: numpy does not raise on a zero
  divisor but gives an infinity, or a NaN for \<open>0 / 0\<close>, on which \<^verbatim>\<open>math.floor\<close> raises
  \<^verbatim>\<open>OverflowError\<close>, or \<^verbatim>\<open>ValueError\<close>. The risk of the spread is such a value, being
  computed from the strikes of the chain.
\<close>

definition np_div_floor :: "real \<Rightarrow> real \<Rightarrow> py_error + int" where
  "np_div_floor a b =
     (if b = 0 then Inl (if a = 0 then ValueError else OverflowError) else Inr \<lfloor>a / b\<rfloor>)"

text \<open>\<open>portfolio_value\<close> is \<^verbatim>\<open>self.broker.getvalue()\<close>.\<close>

definition consider_new_iron_condor ::
  "params \<Rightarrow> state \<Rightarrow> int \<Rightarrow> real \<Rightarrow> real \<Rightarrow> py_error + state" where
  "consider_new_iron_condor p s current_date current_price portfolio_value =
     (if iv_rank s < iv_rank_min p then Inr s
      else
        and_then (get_next_monthly_expiration current_date) (\<lambda>expiry0.
        and_then
          (if expiry0 - current_date < days_to_expiry p
           then and_then (date_add_days current_date 35) get_next_monthly_expiration
           else Inr expiry0) (\<lambda>expiry.
          let dte = expiry - current_date in
          and_then (simulate_option_chain current_price dte (iv_estimate s) (2 / 100))
            (\<lambda>options_chain.
          case first_within_delta (puts options_chain) (put_delta p) of
            None \<Rightarrow> Inr s
          | Some short_put \<Rightarrow>
              let long_put_strike' = option_contract.strike short_put * (1 - put_width p);
                  long_put =
                    find_closest_option (puts options_chain) option_contract.strike
                      long_put_strike'
              in
              (case first_within_delta (calls options_chain) (call_delta p) of
                 None \<Rightarrow> Inr s
               | Some short_call \<Rightarrow>
                   let long_call_strike' =
                         option_contract.strike short_call * (1 + call_width p);
                       long_call =
                         find_closest_option (calls options_chain) option_contract.strike
                           long_call_strike'
                   in
                   and_then (subscript long_put price) (\<lambda>long_put_price.
                   and_then (subscript long_call price) (\<lambda>long_call_price.
                     let credit =
                           price short_put - long_put_price + price short_call
                             - long_call_price
                     in
                     and_then (subscript long_put option_contract.strike) (\<lambda>long_put_k.
                     and_then (subscript long_call option_contract.strike) (\<lambda>long_call_k.
                       let put_spread_width = option_contract.strike short_put - long_put_k;
                           call_spread_width = long_call_k - option_contract.strike short_call;
                           max_risk = max put_spread_width call_spread_width - credit;
                           max_return = credit;
                           margin_requirement = max put_spread_width call_spread_width
                       in
                       and_then
                         (if margin_requirement > 0 then py_div max_return margin_requirement
                          else Inr 0) (\<lambda>return_on_risk.
                         if return_on_risk < 15 / 100 then Inr s
                         else
                           (let max_risk_dollars = portfolio_value * risk_percentage p in
                            and_then (np_div_floor max_risk_dollars (max_risk * 100)) (\<lambda>n.
                              let num_spreads = max 1 n in
                              Inr (s\<lparr>active_options := Some True,
                                      option_type := IRON_CONDOR,
                                      entry_date := Some current_date,
                                      expiry_date := Some expiry,
                                      short_put_strike := option_contract.strike short_put,
                                      long_put_strike := long_put_k,
                                      short_call_strike := option_contract.strike short_call,
                                      long_call_strike := long_call_k,
                                      max_profit := credit * of_int num_spreads * 100,
                                      max_loss := max_risk * of_int num_spreads * 100,
                                      entry_credit := credit\<rparr>)))))))))))))"

subsection \<open>next\<close>

text \<open>
  What one call of \<^verbatim>\<open>next\<close> reads from backtrader: the date and the close of the bar
  (\<^verbatim>\<open>self.data[0]\<close>), the ATR and its buffer, and the value of the portfolio. The method
  is \<open>strategy_next\<close> here, \<open>next\<close> being a keyword of Isabelle.
\<close>

record bar =
  bar_date :: int
  bar_close :: real
  bar_atr :: real
  bar_atr_array :: "real list"
  bar_portfolio_value :: real

text \<open>
  The update of the rolling window: \<^verbatim>\<open>self.close_hist.append(current_price)\<close>, then
  \<^verbatim>\<open>pop(0)\<close> when more than 252 closes are held.
\<close>

definition append_close :: "real list \<Rightarrow> real \<Rightarrow> real list" where
  "append_close hist current_price =
     (let hist' = hist @ [current_price] in if length hist' > 252 then tl hist' else hist')"

definition strategy_next :: "params \<Rightarrow> state \<Rightarrow> bar \<Rightarrow> py_error + state" where
  "strategy_next p s b =
     (let current_date = bar_date b;
          current_price = bar_close b;
          s1 = s\<lparr>close_hist := append_close (close_hist s) current_price\<rparr>
      in
      and_then
        (if length (close_hist s1) \<ge> 20 then calculate_historical_volatility s1 else Inr s1)
        (\<lambda>s2.
      and_then (estimate_implied_volatility s2 (bar_atr b) current_price (bar_atr_array b))
        (\<lambda>s3.
        if active_options s3 = Some True
        then and_then (manage_iron_condor p s3 current_date current_price)
               (\<lambda>(s4, reason). Inr s4)
        else consider_new_iron_condor p s3 current_date current_price
               (bar_portfolio_value b))))"

text \<open>The states a run of the strategy passes through, from \<^verbatim>\<open>__init__\<close> on.\<close>

inductive reachable :: "params \<Rightarrow> state \<Rightarrow> bool" for p :: params where
  start: "reachable p init"
| step: "reachable p s \<Longrightarrow> strategy_next p s b = Inr s' \<Longrightarrow> reachable p s'"

text \<open>
  The standard deviation of a list of observations in its two usual senses, for stating
  what the historical volatility is. The specification's term is the sample standard
  deviation, which divides the sum of the squared deviations by \<open>n - 1\<close>; the population
  standard deviation divides it by \<open>n\<close>.
\<close>

definition mean :: "real list \<Rightarrow> real" where
  "mean xs = sum_list xs / real (length xs)"

definition sample_stddev :: "real list \<Rightarrow> real" where
  "sample_stddev xs = sqrt (sum_list (map (\<lambda>x. (x - mean xs)\<^sup>2) xs) / real (length xs - 1))"

definition population_stddev :: "real list \<Rightarrow> real" where
  "population_stddev xs = sqrt (sum_list (map (\<lambda>x. (x - mean xs)\<^sup>2) xs) / real (length xs))"

text \<open>
  The log returns between neighbours among the most recent 20 closes, the newest first,
  as \<^verbatim>\<open>calculate_historical_volatility\<close> collects them.
\<close>

definition recent_log_returns :: "real list \<Rightarrow> real list" where
  "recent_log_returns hist =
     map (\<lambda>i. ln (hist ! (length hist - i) / hist ! (length hist - (i + 1)))) [1..<20]"


section \<open>Properties of the normal distribution function\<close>

lemma cdf_term_bound: "\<bar>cdf_term x n\<bar> \<le> \<bar>x\<bar> * (inverse (fact n) * (x\<^sup>2 / 2) ^ n)"
proof -
  have "\<bar>cdf_term x n\<bar> = \<bar>x\<bar> * ((x\<^sup>2 / 2) ^ n / fact n) / real (2 * n + 1)"
    by (simp add: cdf_term_def abs_mult power_mult power_abs divide_simps)
  also have "\<dots> \<le> \<bar>x\<bar> * ((x\<^sup>2 / 2) ^ n / fact n) / 1"
    by (rule divide_left_mono) simp_all
  finally show ?thesis by (simp add: field_simps)
qed

lemma cdf_term_summable: "summable (cdf_term x)"
proof (rule summable_comparison_test')
  show "summable (\<lambda>n. \<bar>x\<bar> * (inverse (fact n) * (x\<^sup>2 / 2) ^ n))"
    by (intro summable_mult summable_exp)
  show "\<And>n. 0 \<le> n \<Longrightarrow> norm (cdf_term x n) \<le> \<bar>x\<bar> * (inverse (fact n) * (x\<^sup>2 / 2) ^ n)"
    using cdf_term_bound by simp
qed



lemma norm_cdf_zero: "norm_cdf 0 = 1 / 2"
  by (simp add: norm_cdf_def cdf_term_def)

text \<open>
  The series is differentiable term by term: the derivative of the distribution function
  is the density. With the value 1/2 at 0 this determines the function.
\<close>

lemma power_lipschitz:
  fixes x y R :: real
  assumes "\<bar>x\<bar> \<le> R" and "\<bar>y\<bar> \<le> R"
  shows "\<bar>x ^ Suc k - y ^ Suc k\<bar> \<le> real (Suc k) * R ^ k * \<bar>x - y\<bar>"
proof (induction k)
  case 0
  show ?case by simp
next
  case (Suc k)
  have R: "0 \<le> R" using assms(1) by linarith
  have yk: "\<bar>y ^ Suc k\<bar> \<le> R ^ Suc k"
    unfolding power_abs using assms(2) by (intro power_mono) simp_all
  have "x ^ Suc (Suc k) - y ^ Suc (Suc k) = x * (x ^ Suc k - y ^ Suc k) + (x - y) * y ^ Suc k"
    by (simp add: algebra_simps)
  then have "\<bar>x ^ Suc (Suc k) - y ^ Suc (Suc k)\<bar>
      \<le> \<bar>x\<bar> * \<bar>x ^ Suc k - y ^ Suc k\<bar> + \<bar>x - y\<bar> * \<bar>y ^ Suc k\<bar>"
    by (metis abs_mult abs_triangle_ineq)
  also have "\<dots> \<le> R * (real (Suc k) * R ^ k * \<bar>x - y\<bar>) + \<bar>x - y\<bar> * R ^ Suc k"
    using assms(1) Suc.IH yk R
    by (intro add_mono mult_mono) simp_all
  also have "\<dots> = real (Suc (Suc k)) * R ^ Suc k * \<bar>x - y\<bar>"
    by (simp add: algebra_simps)
  finally show ?case .
qed

lemma cdf_term_lipschitz:
  assumes "\<bar>x\<bar> \<le> R" and "\<bar>y\<bar> \<le> R"
  shows "\<bar>cdf_term x n - cdf_term y n\<bar> \<le> inverse (fact n) * (R\<^sup>2 / 2) ^ n * \<bar>x - y\<bar>"
proof -
  have "cdf_term x n - cdf_term y n
      = (- 1) ^ n * (x ^ Suc (2 * n) - y ^ Suc (2 * n)) / (2 ^ n * fact n * real (2 * n + 1))"
    by (simp add: cdf_term_def algebra_simps diff_divide_distrib)
  then have "\<bar>cdf_term x n - cdf_term y n\<bar>
      = \<bar>x ^ Suc (2 * n) - y ^ Suc (2 * n)\<bar> / (2 ^ n * fact n * real (2 * n + 1))"
    by (simp add: abs_mult power_abs)
  also have "\<dots> \<le> (real (Suc (2 * n)) * R ^ (2 * n) * \<bar>x - y\<bar>) / (2 ^ n * fact n * real (2 * n + 1))"
    by (intro divide_right_mono power_lipschitz assms) simp
  also have "\<dots> = inverse (fact n) * (R\<^sup>2 / 2) ^ n * \<bar>x - y\<bar>"
  proof -
    define c :: real where "c = real (2 * n + 1)"
    have c: "c \<noteq> 0" "real (Suc (2 * n)) = c" by (simp_all add: c_def)
    have e: "R ^ (2 * n) = (R\<^sup>2) ^ n" by (simp add: power_mult)
    show ?thesis
      unfolding c(2) c_def[symmetric] e using c(1)
      by (simp add: power_divide field_simps)
  qed
  finally show ?thesis .
qed

lemma cdf_term_deriv:
  "DERIV (\<lambda>x. cdf_term x n) x :> inverse (fact n) * (- (x\<^sup>2) / 2) ^ n"
proof -
  define c :: real where "c = real (2 * n + 1)"
  have c: "c \<noteq> 0" "real (Suc (2 * n)) = c" by (simp_all add: c_def)
  have "DERIV (\<lambda>x. x ^ Suc (2 * n)) x :> real (Suc (2 * n)) * x ^ (2 * n)"
    using DERIV_pow[of "Suc (2 * n)" x] by simp
  then have "DERIV (\<lambda>x. ((- 1) ^ n / (2 ^ n * fact n * c)) * x ^ Suc (2 * n)) x
        :> ((- 1) ^ n / (2 ^ n * fact n * c)) * (c * x ^ (2 * n))"
    unfolding c(2) by (rule DERIV_cmult)
  moreover have "((- 1) ^ n / (2 ^ n * fact n * c)) * (c * x ^ (2 * n))
      = inverse (fact n) * (- (x\<^sup>2) / 2) ^ n"
  proof -
    have e: "x ^ (2 * n) = (x\<^sup>2) ^ n" by (simp add: power_mult)
    have m: "(- (x\<^sup>2) / 2) ^ n = (- 1) ^ n * (x\<^sup>2) ^ n / 2 ^ n"
      unfolding power_divide by (subst power_minus) simp
    show ?thesis unfolding e m using c(1) by (simp add: field_simps)
  qed
  moreover have "(\<lambda>x. cdf_term x n) = (\<lambda>x. ((- 1) ^ n / (2 ^ n * fact n * c)) * x ^ Suc (2 * n))"
    by (simp add: cdf_term_def c_def fun_eq_iff)
  ultimately show ?thesis by simp
qed

lemma cdf_series_deriv: "DERIV (\<lambda>x. \<Sum>n. cdf_term x n) x0 :> exp (- (x0\<^sup>2) / 2)"
proof -
  define R where "R = \<bar>x0\<bar> + 1"
  have "DERIV (\<lambda>x. suminf (cdf_term x)) x0 :> suminf (\<lambda>n. inverse (fact n) * (- (x0\<^sup>2) / 2) ^ n)"
  proof (rule DERIV_series'[where a = "- R" and b = R and L = "\<lambda>n. inverse (fact n) * (R\<^sup>2 / 2) ^ n"])
    show "DERIV (\<lambda>x. cdf_term x n) x0 :> inverse (fact n) * (- (x0\<^sup>2) / 2) ^ n" for n
      by (rule cdf_term_deriv)
    show "summable (cdf_term x)" for x by (rule cdf_term_summable)
    show "x0 \<in> {- R<..<R}" by (auto simp add: R_def)
    show "summable (\<lambda>n. inverse (fact n) * (- (x0\<^sup>2) / 2) ^ n)" by (rule summable_exp)
    show "summable (\<lambda>n. inverse (fact n) * (R\<^sup>2 / 2) ^ n)" by (rule summable_exp)
    show "\<bar>cdf_term x n - cdf_term y n\<bar> \<le> inverse (fact n) * (R\<^sup>2 / 2) ^ n * \<bar>x - y\<bar>"
      if "x \<in> {- R<..<R}" and "y \<in> {- R<..<R}" for n x y
      using that by (intro cdf_term_lipschitz) auto
  qed
  moreover have "suminf (\<lambda>n. inverse (fact n) * (- (x0\<^sup>2) / 2) ^ n) = exp (- (x0\<^sup>2) / 2)"
    by (simp add: exp_def)
  ultimately show ?thesis by simp
qed

lemma norm_cdf_deriv: "DERIV norm_cdf x :> norm_pdf x"
proof -
  have "DERIV (\<lambda>x. (\<Sum>n. cdf_term x n) / sqrt (2 * pi)) x :> exp (- (x\<^sup>2) / 2) / sqrt (2 * pi)"
    by (rule DERIV_cdivide[OF cdf_series_deriv])
  then have "DERIV (\<lambda>x. 1 / 2 + (\<Sum>n. cdf_term x n) / sqrt (2 * pi)) x
        :> 0 + exp (- (x\<^sup>2) / 2) / sqrt (2 * pi)"
    by (intro DERIV_add DERIV_const)
  then show ?thesis
    unfolding norm_pdf_def by (simp add: norm_cdf_def[abs_def])
qed

lemma norm_pdf_pos: "0 < norm_pdf x"
  by (simp add: norm_pdf_def)

lemma norm_cdf_strict_mono: "x < y \<Longrightarrow> norm_cdf x < norm_cdf y"
  by (rule DERIV_pos_imp_increasing[of x y norm_cdf]) (auto intro: norm_cdf_deriv norm_pdf_pos)

section \<open>Closed forms of the pricer and of the sensitivities\<close>



text \<open>
  On real arguments neither function raises: behind the guard the quotient \<open>S / K\<close> is
  positive and the divisor \<open>sigma * sqrt T\<close> is not zero.
\<close>

lemma black_scholes_closed_form:
  "black_scholes S K T r sigma opt =
     Inr (if S \<le> 0 \<or> K \<le> 0 \<or> T \<le> 0 \<or> sigma \<le> 0 then 0
          else if lower opt = ''call''
          then S * norm_cdf (bs_d1 S K T r sigma)
               - K * exp (- r * T) * norm_cdf (bs_d2 S K T r sigma)
          else K * exp (- r * T) * norm_cdf (- bs_d2 S K T r sigma)
               - S * norm_cdf (- bs_d1 S K T r sigma))"
  by (simp add: black_scholes_def and_then_def py_div_def py_log_def py_sqrt_def
      bs_d1_def bs_d2_def Let_def not_le divide_le_0_iff)

lemma calculate_greeks_closed_form:
  "calculate_greeks S K T r sigma opt =
     Inr (if S \<le> 0 \<or> K \<le> 0 \<or> T \<le> 0 \<or> sigma \<le> 0
          then \<lparr>greeks.delta = 0, gamma = 0, theta = 0, vega = 0, rho = 0\<rparr>
          else
            \<lparr>greeks.delta =
               (if lower opt = ''call'' then norm_cdf (bs_d1 S K T r sigma)
                else - norm_cdf (- bs_d1 S K T r sigma)),
             gamma = norm_pdf (bs_d1 S K T r sigma) / (S * sigma * sqrt T),
             theta =
               (if lower opt = ''call''
                then - (S * sigma * norm_pdf (bs_d1 S K T r sigma) / (2 * sqrt T))
                     - r * K * exp (- r * T) * norm_cdf (bs_d2 S K T r sigma)
                else - (S * sigma * norm_pdf (bs_d1 S K T r sigma) / (2 * sqrt T))
                     + r * K * exp (- r * T) * norm_cdf (- bs_d2 S K T r sigma)) / 365,
             vega = S * sqrt T * norm_pdf (bs_d1 S K T r sigma) / 100,
             rho =
               (if lower opt = ''call''
                then K * T * exp (- r * T) * norm_cdf (bs_d2 S K T r sigma) / 100
                else - K * T * exp (- r * T) * norm_cdf (- bs_d2 S K T r sigma) / 100)\<rparr>)"
  by (simp add: calculate_greeks_def and_then_def py_div_def py_log_def py_sqrt_def
      bs_d1_def bs_d2_def Let_def not_le divide_le_0_iff)

lemma black_scholes_returns: "\<exists>p. black_scholes S K T r sigma opt = Inr p"
  using black_scholes_closed_form by blast

lemma calculate_greeks_returns: "\<exists>g. calculate_greeks S K T r sigma opt = Inr g"
  using calculate_greeks_closed_form by blast

section \<open>The price as a function of the volatility\<close>






section \<open>The bisection loop\<close>






section \<open>The strike ladder\<close>

lemma chain_loop_strikes:
  "\<exists>c. chain_loop up T r vol ks oc = Inr c
       \<and> map option_contract.strike (calls c) = map option_contract.strike (calls oc) @ ks
       \<and> map option_contract.strike (puts c) = map option_contract.strike (puts oc) @ ks"
proof (induction ks arbitrary: oc)
  case Nil
  show ?case by simp
next
  case (Cons k ks)
  obtain cp cg pp pg where
    "black_scholes up k T r vol ''call'' = Inr cp" "calculate_greeks up k T r vol ''call'' = Inr cg"
    "black_scholes up k T r vol ''put'' = Inr pp" "calculate_greeks up k T r vol ''put'' = Inr pg"
    using black_scholes_returns calculate_greeks_returns by meson
  note bs = this
  let ?oc = "\<lparr>calls = calls oc @
            [\<lparr>option_contract.strike = k, price = py_round cp 2,
              delta = py_round (greeks.delta cg) 4, gamma = py_round (greeks.gamma cg) 4,
              theta = py_round (greeks.theta cg) 4, vega = py_round (greeks.vega cg) 2,
              intrinsic = py_round (max 0 (up - k)) 2\<rparr>],
          puts = puts oc @
            [\<lparr>option_contract.strike = k, price = py_round pp 2,
              delta = py_round (greeks.delta pg) 4, gamma = py_round (greeks.gamma pg) 4,
              theta = py_round (greeks.theta pg) 4, vega = py_round (greeks.vega pg) 2,
              intrinsic = py_round (max 0 (k - up)) 2\<rparr>]\<rparr>"
  from Cons.IH[of ?oc] obtain c where
    c: "chain_loop up T r vol ks ?oc = Inr c"
      "map option_contract.strike (calls c) = map option_contract.strike (calls ?oc) @ ks"
      "map option_contract.strike (puts c) = map option_contract.strike (puts ?oc) @ ks"
    by blast
  have "chain_loop up T r vol (k # ks) oc = Inr c"
    using bs c(1) by (simp add: and_then_def)
  moreover have "map option_contract.strike (calls c) = map option_contract.strike (calls oc) @ k # ks"
    using c(2) by simp
  moreover have "map option_contract.strike (puts c) = map option_contract.strike (puts oc) @ k # ks"
    using c(3) by simp
  ultimately show ?case by blast
qed

lemma simulate_option_chain_strikes:
  "\<exists>c. simulate_option_chain up d vol r = Inr c
       \<and> map option_contract.strike (calls c) = chain_strikes up
       \<and> map option_contract.strike (puts c) = chain_strikes up"
  using chain_loop_strikes[of up "real_of_int d / 365" r vol "chain_strikes up" "\<lparr>calls = [], puts = []\<rparr>"]
  by (simp add: simulate_option_chain_def Let_def)





lemma chain_strikes_eq:
  "chain_strikes up = map (\<lambda>i. py_round (up * (8 / 10) + real i * (up / 20)) 2) [0..<9]"
  by (simp add: chain_strikes_def linspace_def Let_def)


lemma chain_strikes_100: "chain_strikes 100 = [80, 85, 90, 95, 100, 105, 110, 115, 120]"
  by (simp add: chain_strikes_def linspace_def py_round_def rint_def Let_def upt_rec)




section \<open>Put-call parity\<close>



section \<open>Degenerate inputs\<close>

text \<open>
  C3. When the spot, the strike, the time to expiry or the volatility is not positive,
  whatever the rate and the option type, \<open>black_scholes\<close> returns 0 and
  \<open>calculate_greeks\<close> returns the bundle whose five entries are 0; both return a value,
  neither raises.
\<close>

theorem degenerate_inputs_return_zero:
  assumes "S \<le> 0 \<or> K \<le> 0 \<or> T \<le> 0 \<or> sigma \<le> 0"
  shows "black_scholes S K T r sigma opt = Inr 0
         \<and> calculate_greeks S K T r sigma opt =
             Inr \<lparr>greeks.delta = 0, gamma = 0, theta = 0, vega = 0, rho = 0\<rparr>"
  using assms by (simp add: black_scholes_def calculate_greeks_def)

theorem degenerate_inputs_return_zero_witness:
  "black_scholes 0 100 1 (2 / 100) (2 / 10) ''call'' = Inr 0
   \<and> calculate_greeks 0 100 1 (2 / 100) (2 / 10) ''call'' =
       Inr \<lparr>greeks.delta = 0, gamma = 0, theta = 0, vega = 0, rho = 0\<rparr>
   \<and> black_scholes 100 100 1 (2 / 100) (- 1) ''put'' = Inr 0
   \<and> calculate_greeks 100 100 1 (2 / 100) (- 1) ''put'' =
       Inr \<lparr>greeks.delta = 0, gamma = 0, theta = 0, vega = 0, rho = 0\<rparr>"
  using degenerate_inputs_return_zero [of 0 100 1 "2 / 10" "2 / 100" "''call''"]
    degenerate_inputs_return_zero [of 100 100 1 "- 1" "2 / 100" "''put''"]
  by simp

section \<open>Selection of the call and put branches\<close>



section \<open>The implied-volatility solver\<close>







section \<open>The strikes of the simulated chain\<close>




section \<open>Exit triggers of the iron condor\<close>

lemma find_closest_option_nonempty:
  "xs \<noteq> [] \<Longrightarrow> \<exists>c. find_closest_option xs key target = Some c"
  by (cases xs) (simp_all add: find_closest_option_def)

lemma simulate_option_chain_nonempty:
  "\<exists>c. simulate_option_chain up d vol r = Inr c \<and> calls c \<noteq> [] \<and> puts c \<noteq> []"
proof -
  obtain c where c: "simulate_option_chain up d vol r = Inr c"
    "map option_contract.strike (calls c) = chain_strikes up"
    "map option_contract.strike (puts c) = chain_strikes up"
    using simulate_option_chain_strikes by blast
  have "chain_strikes up \<noteq> []" by (simp add: chain_strikes_eq upt_rec)
  then have "calls c \<noteq> []" "puts c \<noteq> []" using c(2,3) by auto
  with c(1) show ?thesis by blast
qed

lemma position_status_returns:
  assumes "state.expiry_date s = Some e"
  shows "\<exists>current_profit pct.
           position_status s current_date current_price = Inr (e - current_date, current_profit, pct)"
proof -
  obtain c where c: "simulate_option_chain current_price (max 1 (e - current_date)) (iv_estimate s) (2 / 100) = Inr c"
    "calls c \<noteq> []" "puts c \<noteq> []"
    using simulate_option_chain_nonempty by blast
  obtain sp lp sc lc where o:
    "find_closest_option (puts c) option_contract.strike (short_put_strike s) = Some sp"
    "find_closest_option (puts c) option_contract.strike (long_put_strike s) = Some lp"
    "find_closest_option (calls c) option_contract.strike (short_call_strike s) = Some sc"
    "find_closest_option (calls c) option_contract.strike (long_call_strike s) = Some lc"
    using find_closest_option_nonempty[OF c(2)] find_closest_option_nonempty[OF c(3)] by meson
  show ?thesis
    unfolding position_status_def date_diff_days_def assms Let_def and_then_def option.case
      sum.case c(1) o subscript_def
    by (auto simp add: py_div_def)
qed

lemma manage_iron_condor_eq:
  assumes "position_status s current_date current_price = Inr (days_left, current_profit, pct)"
  shows "manage_iron_condor p s current_date current_price =
     Inr (if days_left \<le> exit_days_left p then (close_iron_condor s, Some APPROACHING_EXPIRATION)
          else if params.profit_target_pct p \<le> pct then (close_iron_condor s, Some PROFIT_TARGET_REACHED)
          else if current_profit < 0 \<and> max_profit s * loss_stop_pct p < \<bar>current_profit\<bar>
          then (close_iron_condor s, Some STOP_LOSS_TRIGGERED)
          else (s, None))"
  by (auto simp add: manage_iron_condor_def assms and_then_def exit_decision_def)


text \<open>
  C5. For a position with an expiry date (an open position), \<open>manage_iron_condor\<close> returns
  and tests its three exit triggers in a fixed order, the first that holds deciding the
  step: (1) the days left are at most \<open>exit_days_left\<close>; (2) the profit fraction is at
  least \<open>profit_target_pct\<close>; (3) the profit is negative and its magnitude exceeds
  \<open>loss_stop_pct\<close> times the maximum profit. In particular, when (1) and (2) hold together
  the position is closed for approaching expiration, not for the profit target.
\<close>

theorem exit_priority:
  assumes "state.expiry_date s = Some e"
  shows "\<exists>current_profit pct.
    position_status s current_date current_price = Inr (e - current_date, current_profit, pct)
    \<and> manage_iron_condor p s current_date current_price =
        Inr (if e - current_date \<le> exit_days_left p
             then (close_iron_condor s, Some APPROACHING_EXPIRATION)
             else if params.profit_target_pct p \<le> pct
             then (close_iron_condor s, Some PROFIT_TARGET_REACHED)
             else if current_profit < 0 \<and> max_profit s * loss_stop_pct p < \<bar>current_profit\<bar>
             then (close_iron_condor s, Some STOP_LOSS_TRIGGERED)
             else (s, None))
    \<and> (e - current_date \<le> exit_days_left p \<and> params.profit_target_pct p \<le> pct
        \<longrightarrow> manage_iron_condor p s current_date current_price =
              Inr (close_iron_condor s, Some APPROACHING_EXPIRATION))"
proof -
  obtain current_profit pct where
    st: "position_status s current_date current_price = Inr (e - current_date, current_profit, pct)"
    using position_status_returns [OF assms] by blast
  show ?thesis
    using st manage_iron_condor_eq [OF st, of p] by (intro exI[of _ current_profit] exI[of _ pct]) simp
qed

theorem exit_priority_witness:
  "position_status
     (init\<lparr>active_options := Some True, option_type := IRON_CONDOR,
        entry_date := Some 738000, expiry_date := Some 738030, short_put_strike := 95,
        long_put_strike := 85, short_call_strike := 105, long_call_strike := 115,
        max_profit := 2, max_loss := 8, entry_credit := 1\<rparr>) 738027 100 = Inr (3, 1, 1 / 2)
   \<and> (3 :: int) \<le> exit_days_left default_params
   \<and> params.profit_target_pct default_params \<le> 1 / 2
   \<and> manage_iron_condor default_params
     (init\<lparr>active_options := Some True, option_type := IRON_CONDOR,
        entry_date := Some 738000, expiry_date := Some 738030, short_put_strike := 95,
        long_put_strike := 85, short_call_strike := 105, long_call_strike := 115,
        max_profit := 2, max_loss := 8, entry_credit := 1\<rparr>) 738027 100 =
     Inr (init, Some APPROACHING_EXPIRATION)"
proof -
  let ?s = "init\<lparr>active_options := Some True, option_type := IRON_CONDOR,
        entry_date := Some 738000, expiry_date := Some 738030, short_put_strike := 95,
        long_put_strike := 85, short_call_strike := 105, long_call_strike := 115,
        max_profit := 2, max_loss := 8, entry_credit := 1\<rparr>"
  have e: "state.expiry_date ?s = Some 738030" by simp
  have st: "position_status ?s 738027 100 = Inr (3, 1, 1 / 2)"
    by (simp add: position_status_def init_def date_diff_days_def and_then_def
        simulate_option_chain_def chain_strikes_100 black_scholes_def calculate_greeks_def
        Let_def find_closest_option_def subscript_def py_div_def py_round_def rint_def)
  have cl: "close_iron_condor ?s = init"
    by (simp add: close_iron_condor_def init_def)
  show ?thesis
    using exit_priority [OF e, of 738027 100 default_params] st
    by (auto simp add: cl default_params_def)
qed


section \<open>Entry of the short put\<close>



section \<open>The volatility state along a run\<close>

lemma and_then_Inr: "and_then m f = Inr y \<Longrightarrow> \<exists>x. m = Inr x \<and> f x = Inr y"
  by (cases m) (simp_all add: and_then_def)

lemma consider_new_iron_condor_frame:
  assumes "consider_new_iron_condor p s d pr pv = Inr s'"
  shows "close_hist s' = close_hist s \<and> hv_20 s' = hv_20 s \<and> iv_estimate s' = iv_estimate s
         \<and> iv_rank s' = iv_rank s"
  using assms unfolding consider_new_iron_condor_def Let_def
  by (auto dest!: and_then_Inr split: if_splits option.splits)

lemma manage_iron_condor_frame:
  assumes "manage_iron_condor p s d pr = Inr (s', reason)"
  shows "close_hist s' = close_hist s \<and> hv_20 s' = hv_20 s \<and> iv_estimate s' = iv_estimate s
         \<and> iv_rank s' = iv_rank s"
  using assms unfolding manage_iron_condor_def
  by (auto dest!: and_then_Inr simp add: close_iron_condor_def split: option.splits)

lemma estimate_implied_volatility_frame:
  assumes "estimate_implied_volatility s atr0 data0 atr_array = Inr s'"
  shows "close_hist s' = close_hist s \<and> hv_20 s' = hv_20 s"
  using assms unfolding estimate_implied_volatility_def Let_def
  by (auto dest!: and_then_Inr split: if_splits)

lemma estimate_implied_volatility_iv_rank:
  assumes "estimate_implied_volatility s atr0 data0 atr_array = Inr s'"
  shows "iv_rank s' =
           (if 252 \<le> length (close_hist s)
            then min 1 (max 0 (atr0 / (2 * (sum_list (drop (length atr_array - 20) atr_array) / 20))))
            else iv_rank s)"
  using assms unfolding estimate_implied_volatility_def Let_def
  by (auto dest!: and_then_Inr simp add: py_div_def split: if_splits)

lemma calculate_historical_volatility_frame:
  assumes "calculate_historical_volatility s = Inr s'"
  shows "close_hist s' = close_hist s \<and> iv_rank s' = iv_rank s \<and> iv_estimate s' = iv_estimate s
     \<and> active_options s' = active_options s"
  using assms unfolding calculate_historical_volatility_def
  by (auto dest!: and_then_Inr split: if_splits)


lemma returns_loop_result:
  "returns_loop hist is acc = Inr rets \<Longrightarrow>
   rets = acc @ map (\<lambda>i. ln (hist ! (length hist - i) / hist ! (length hist - (i + 1)))) is"
proof (induction "is" arbitrary: acc)
  case Nil
  then show ?case by simp
next
  case (Cons i rest)
  from Cons.prems obtain a b q l where
    a: "from_end hist i = Inr a" and b: "from_end hist (i + 1) = Inr b"
    and q: "py_div a b = Inr q" and l: "py_log q = Inr l"
    and r: "returns_loop hist rest (acc @ [l]) = Inr rets"
    by (auto dest!: and_then_Inr)
  have "a = hist ! (length hist - i)" using a by (simp add: from_end_def split: if_splits)
  moreover have "b = hist ! (length hist - (i + 1))" using b by (simp add: from_end_def split: if_splits)
  moreover have "q = a / b" using q by (simp add: py_div_def split: if_splits)
  moreover have "l = ln q" using l by (simp add: py_log_def split: if_splits)
  ultimately show ?case using Cons.IH[OF r] by simp
qed

lemma calculate_historical_volatility_result:
  assumes "calculate_historical_volatility s = Inr s'" and "20 \<le> length (close_hist s)"
  shows "s' = s\<lparr>hv_20 := population_stddev (recent_log_returns (close_hist s)) * sqrt 252\<rparr>"
proof -
  from assms obtain rets m v dv an where
    r: "returns_loop (close_hist s) [1..<20] [] = Inr rets"
    and m: "py_div (sum_list rets) (real (length rets)) = Inr m"
    and v: "py_div (sum_list (map (\<lambda>r. (r - m)\<^sup>2) rets)) (real (length rets)) = Inr v"
    and dv: "py_sqrt v = Inr dv" and an: "py_sqrt 252 = Inr an"
    and s': "s' = s\<lparr>hv_20 := dv * an\<rparr>"
    unfolding calculate_historical_volatility_def
    by (auto dest!: and_then_Inr split: if_splits)
  have rets: "rets = recent_log_returns (close_hist s)"
    using returns_loop_result[OF r] by (simp add: recent_log_returns_def)
  have "m = mean rets" using m by (simp add: py_div_def mean_def split: if_splits)
  moreover have "v = sum_list (map (\<lambda>r. (r - m)\<^sup>2) rets) / real (length rets)"
    using v by (simp add: py_div_def split: if_splits)
  moreover have "dv = sqrt v" using dv by (simp add: py_sqrt_def split: if_splits)
  moreover have "an = sqrt 252" using an by (simp add: py_sqrt_def split: if_splits)
  ultimately show ?thesis unfolding s' rets[symmetric] population_stddev_def by simp
qed

lemma returns_loop_returns:
  assumes "\<forall>i \<in> set is. 1 \<le> i \<and> i + 1 \<le> length hist" and "\<forall>x \<in> set hist. 0 < x"
  shows "\<exists>rets. returns_loop hist is acc = Inr rets"
  using assms(1)
proof (induction "is" arbitrary: acc)
  case Nil
  show ?case by simp
next
  case (Cons i rest)
  have i: "1 \<le> i" "i + 1 \<le> length hist" using Cons.prems by simp_all
  let ?a = "hist ! (length hist - i)" and ?b = "hist ! (length hist - (i + 1))"
  have pos: "0 < ?a" "0 < ?b" using assms(2) i by simp_all
  have "from_end hist i = Inr ?a" "from_end hist (i + 1) = Inr ?b"
    using i by (simp_all add: from_end_def)
  moreover have "py_div ?a ?b = Inr (?a / ?b)" using pos by (simp add: py_div_def)
  moreover have "py_log (?a / ?b) = Inr (ln (?a / ?b))"
    using pos by (simp add: py_log_def divide_le_0_iff)
  moreover obtain rets where "returns_loop hist rest (acc @ [ln (?a / ?b)]) = Inr rets"
    using Cons.IH[of "acc @ [ln (?a / ?b)]"] Cons.prems by auto
  ultimately show ?case by (simp add: and_then_def)
qed

lemma calculate_historical_volatility_returns:
  assumes "\<forall>x \<in> set (close_hist s). 0 < x"
  shows "\<exists>s'. calculate_historical_volatility s = Inr s'"
proof (cases "length (close_hist s) < 20")
  case True
  then show ?thesis by (simp add: calculate_historical_volatility_def)
next
  case False
  then have "\<forall>i \<in> set [1..<20]. 1 \<le> i \<and> i + 1 \<le> length (close_hist s)" by auto
  from returns_loop_returns[OF this assms, of "[]"] obtain rets where
    r: "returns_loop (close_hist s) [1..<20] [] = Inr rets" by blast
  have "rets = recent_log_returns (close_hist s)"
    using returns_loop_result[OF r] by (simp add: recent_log_returns_def)
  then have len: "length rets = 19" by (simp add: recent_log_returns_def)
  have nonneg: "0 \<le> sum_list (map (\<lambda>r. (r - m)\<^sup>2) rets) / 19" for m
    by (intro divide_nonneg_nonneg sum_list_nonneg) auto
  show ?thesis
    unfolding calculate_historical_volatility_def r and_then_def sum.case
    using False nonneg by (simp add: len py_div_def py_sqrt_def not_less)
qed

lemma length_append_close:
  "length (append_close h c) = (if length h < 252 then length h + 1 else length h)"
  by (auto simp add: append_close_def Let_def)

lemma set_append_close: "set (append_close h c) \<subseteq> insert c (set h)"
  by (auto simp add: append_close_def Let_def dest: list.set_sel(2)[rotated])

lemma strategy_next_Inr:
  assumes "strategy_next p s b = Inr s'"
  obtains s2 s3 where
    "if 20 \<le> length (append_close (close_hist s) (bar_close b))
     then calculate_historical_volatility
            (s\<lparr>close_hist := append_close (close_hist s) (bar_close b)\<rparr>) = Inr s2
     else s2 = s\<lparr>close_hist := append_close (close_hist s) (bar_close b)\<rparr>"
    "estimate_implied_volatility s2 (bar_atr b) (bar_close b) (bar_atr_array b) = Inr s3"
    "close_hist s' = close_hist s3" "hv_20 s' = hv_20 s3" "iv_rank s' = iv_rank s3"
proof -
  let ?s1 = "s\<lparr>close_hist := append_close (close_hist s) (bar_close b)\<rparr>"
  from assms obtain s2 s3 where
    a: "(if 20 \<le> length (close_hist ?s1) then calculate_historical_volatility ?s1 else Inr ?s1) = Inr s2"
    and b: "estimate_implied_volatility s2 (bar_atr b) (bar_close b) (bar_atr_array b) = Inr s3"
    and c: "(if active_options s3 = Some True
             then and_then (manage_iron_condor p s3 (bar_date b) (bar_close b)) (\<lambda>(s4, reason). Inr s4)
             else consider_new_iron_condor p s3 (bar_date b) (bar_close b) (bar_portfolio_value b)) = Inr s'"
    unfolding strategy_next_def Let_def by (auto dest!: and_then_Inr)
  have "close_hist s' = close_hist s3 \<and> hv_20 s' = hv_20 s3 \<and> iv_rank s' = iv_rank s3"
  proof (cases "active_options s3 = Some True")
    case True
    with c obtain r where "manage_iron_condor p s3 (bar_date b) (bar_close b) = Inr (s', r)"
      by (auto dest!: and_then_Inr)
    from manage_iron_condor_frame[OF this] show ?thesis by simp
  next
    case False
    with c have "consider_new_iron_condor p s3 (bar_date b) (bar_close b) (bar_portfolio_value b) = Inr s'"
      by simp
    from consider_new_iron_condor_frame[OF this] show ?thesis by simp
  qed
  moreover have "if 20 \<le> length (append_close (close_hist s) (bar_close b))
     then calculate_historical_volatility ?s1 = Inr s2 else s2 = ?s1"
    using a by (auto split: if_splits)
  ultimately show ?thesis using that b by blast
qed

lemma strategy_next_close_hist:
  assumes "strategy_next p s b = Inr s'"
  shows "close_hist s' = append_close (close_hist s) (bar_close b)"
proof -
  from assms obtain s2 s3 where
    a: "if 20 \<le> length (append_close (close_hist s) (bar_close b))
     then calculate_historical_volatility
            (s\<lparr>close_hist := append_close (close_hist s) (bar_close b)\<rparr>) = Inr s2
     else s2 = s\<lparr>close_hist := append_close (close_hist s) (bar_close b)\<rparr>"
    and b: "estimate_implied_volatility s2 (bar_atr b) (bar_close b) (bar_atr_array b) = Inr s3"
    and c: "close_hist s' = close_hist s3"
    by (rule strategy_next_Inr)
  have "close_hist s2 = append_close (close_hist s) (bar_close b)"
    using a calculate_historical_volatility_frame by (auto split: if_splits)
  then show ?thesis using estimate_implied_volatility_frame[OF b] c by simp
qed

lemma strategy_next_hv_20:
  assumes "strategy_next p s b = Inr s'"
  shows "hv_20 s' =
          (if 20 \<le> length (close_hist s')
           then population_stddev (recent_log_returns (close_hist s')) * sqrt 252
           else hv_20 s)"
proof -
  let ?w = "append_close (close_hist s) (bar_close b)"
  from assms obtain s2 s3 where
    a: "if 20 \<le> length ?w
     then calculate_historical_volatility (s\<lparr>close_hist := ?w\<rparr>) = Inr s2
     else s2 = s\<lparr>close_hist := ?w\<rparr>"
    and b: "estimate_implied_volatility s2 (bar_atr b) (bar_close b) (bar_atr_array b) = Inr s3"
    and c: "hv_20 s' = hv_20 s3"
    by (rule strategy_next_Inr)
  have w: "close_hist s' = ?w" using assms by (rule strategy_next_close_hist)
  have "hv_20 s2 = (if 20 \<le> length ?w then population_stddev (recent_log_returns ?w) * sqrt 252 else hv_20 s)"
  proof (cases "20 \<le> length ?w")
    case True
    with a have "calculate_historical_volatility (s\<lparr>close_hist := ?w\<rparr>) = Inr s2" by simp
    from calculate_historical_volatility_result[OF this] True show ?thesis by simp
  next
    case False
    with a show ?thesis by simp
  qed
  then show ?thesis using estimate_implied_volatility_frame[OF b] c w by simp
qed

lemma strategy_next_iv_rank:
  assumes "strategy_next p s b = Inr s'"
  shows "iv_rank s' =
          (if 252 \<le> length (close_hist s')
           then min 1 (max 0 (bar_atr b /
                  (2 * (sum_list (drop (length (bar_atr_array b) - 20) (bar_atr_array b)) / 20))))
           else iv_rank s)"
proof -
  let ?w = "append_close (close_hist s) (bar_close b)"
  from assms obtain s2 s3 where
    a: "if 20 \<le> length ?w
     then calculate_historical_volatility (s\<lparr>close_hist := ?w\<rparr>) = Inr s2
     else s2 = s\<lparr>close_hist := ?w\<rparr>"
    and b: "estimate_implied_volatility s2 (bar_atr b) (bar_close b) (bar_atr_array b) = Inr s3"
    and c: "iv_rank s' = iv_rank s3"
    by (rule strategy_next_Inr)
  have w: "close_hist s' = ?w" using assms by (rule strategy_next_close_hist)
  have "close_hist s2 = ?w \<and> iv_rank s2 = iv_rank s"
    using a calculate_historical_volatility_frame by (auto split: if_splits)
  then show ?thesis using estimate_implied_volatility_iv_rank[OF b] c w by simp
qed

lemma reachable_invariant:
  assumes "reachable p s"
  shows "length (close_hist s) \<le> 252
       \<and> (length (close_hist s) < 20 \<longrightarrow> hv_20 s = 0)
       \<and> (length (close_hist s) < 252 \<longrightarrow> iv_rank s = 0)
       \<and> 0 \<le> iv_rank s \<and> iv_rank s \<le> 1"
  using assms
proof (induction rule: reachable.induct)
  case start
  show ?case by (simp add: init_def)
next
  case (step s b s')
  have w: "close_hist s' = append_close (close_hist s) (bar_close b)"
    using step.hyps(2) by (rule strategy_next_close_hist)
  have len: "length (close_hist s') = (if length (close_hist s) < 252 then length (close_hist s) + 1 else length (close_hist s))"
    unfolding w by (rule length_append_close)
  show ?case
    using step.IH len strategy_next_hv_20[OF step.hyps(2)] strategy_next_iv_rank[OF step.hyps(2)]
    by (auto split: if_splits)
qed

lemma estimate_implied_volatility_warm:
  assumes "length (close_hist s) < 252" and "data0 \<noteq> 0"
  shows "\<exists>s'. estimate_implied_volatility s atr0 data0 atr_array = Inr s'
            \<and> active_options s' = active_options s \<and> iv_rank s' = iv_rank s"
  using assms
  by (simp add: estimate_implied_volatility_def and_then_def py_div_def py_sqrt_def Let_def)

lemma strategy_next_idle_returns:
  assumes idle: "active_options s \<noteq> Some True" and low: "iv_rank s < iv_rank_min p"
    and pos: "\<forall>x \<in> set (close_hist s). 0 < x" "0 < bar_close b"
    and len: "length (close_hist s) < 251"
  shows "\<exists>s'. strategy_next p s b = Inr s' \<and> active_options s' = active_options s"
proof -
  let ?w = "append_close (close_hist s) (bar_close b)"
  let ?s1 = "s\<lparr>close_hist := ?w\<rparr>"
  have posw: "\<forall>x \<in> set (close_hist ?s1). 0 < x"
    using pos set_append_close[of "close_hist s" "bar_close b"] by auto
  have lenw: "length ?w < 252" using len by (simp add: length_append_close)
  obtain s2 where s2:
    "(if 20 \<le> length (close_hist ?s1) then calculate_historical_volatility ?s1 else Inr ?s1) = Inr s2"
    using calculate_historical_volatility_returns[OF posw]
    by (cases "20 \<le> length (close_hist ?s1)") auto
  then have f2: "close_hist s2 = ?w \<and> iv_rank s2 = iv_rank s \<and> active_options s2 = active_options s"
    using calculate_historical_volatility_frame[of ?s1 s2] by (auto split: if_splits)
  obtain s3 where s3: "estimate_implied_volatility s2 (bar_atr b) (bar_close b) (bar_atr_array b) = Inr s3"
    and f3: "active_options s3 = active_options s2" "iv_rank s3 = iv_rank s2"
    using estimate_implied_volatility_warm[of s2 "bar_close b"] f2 lenw pos(2) by auto
  have c: "consider_new_iron_condor p s3 (bar_date b) (bar_close b) (bar_portfolio_value b) = Inr s3"
    using low f2 f3 by (simp add: consider_new_iron_condor_def)
  have "strategy_next p s b = Inr s3"
    unfolding strategy_next_def Let_def s2 and_then_def sum.case s3
    using idle f2 f3 c by simp
  then show ?thesis using f2 f3 by simp
qed

lemma append_close_replicate:
  "n < 252 \<Longrightarrow> append_close (replicate n c) c = replicate (Suc n) c"
  by (simp add: append_close_def Let_def replicate_append_same)

lemma reachable_warm_up:
  assumes "0 < iv_rank_min p" and "0 < c" and "n \<le> 251"
  shows "\<exists>s. reachable p s \<and> close_hist s = replicate n c \<and> active_options s = None"
  using assms(3)
proof (induction n)
  case 0
  have "reachable p init" by (rule reachable.start)
  then show ?case by (intro exI[of _ init]) (simp add: init_def)
next
  case (Suc n)
  then obtain s where s: "reachable p s" "close_hist s = replicate n c" "active_options s = None"
    by auto
  let ?b = "\<lparr>bar_date = 738886, bar_close = c, bar_atr = 1, bar_atr_array = [], bar_portfolio_value = 100000\<rparr>"
  have "iv_rank s = 0" using reachable_invariant[OF s(1)] s(2) Suc.prems by simp
  then obtain s' where s': "strategy_next p s ?b = Inr s'" "active_options s' = active_options s"
    using strategy_next_idle_returns[of s p ?b] s assms(1,2) Suc.prems by auto
  have "close_hist s' = replicate (Suc n) c"
    using strategy_next_close_hist[OF s'(1)] s(2) Suc.prems by (simp add: append_close_replicate)
  moreover have "reachable p s'" using s(1) s'(1) by (rule reachable.step)
  ultimately show ?case using s' s(3) by auto
qed

lemma recent_log_returns_example:
  "recent_log_returns (replicate 19 1 @ [2]) = ln 2 # replicate 18 0"
  by (simp add: recent_log_returns_def upt_rec nth_append numeral_eq_Suc)

lemma population_example:
  "population_stddev (ln 2 # replicate 18 0) = sqrt ((18 / 361) * (ln 2)\<^sup>2)"
proof -
  have m: "mean (ln 2 # replicate 18 0) = ln 2 / 19"
    by (simp add: mean_def sum_list_replicate)
  have v: "sum_list (map (\<lambda>x. (x - ln 2 / 19)\<^sup>2) (ln 2 # replicate 18 0)) / real (length (ln 2 # replicate 18 0 :: real list))
        = (18 / 361) * (ln 2)\<^sup>2"
    by (simp add: sum_list_replicate power2_eq_square field_simps)
  show ?thesis
    unfolding population_stddev_def m v ..
qed

lemma sample_example:
  "sample_stddev (ln 2 # replicate 18 0) = sqrt ((19 / 361) * (ln 2)\<^sup>2)"
proof -
  have m: "mean (ln 2 # replicate 18 0) = ln 2 / 19"
    by (simp add: mean_def sum_list_replicate)
  have v: "sum_list (map (\<lambda>x. (x - ln 2 / 19)\<^sup>2) (ln 2 # replicate 18 0)) / real (length (ln 2 # replicate 18 0 :: real list) - 1)
        = (19 / 361) * (ln 2)\<^sup>2"
    by (simp add: sum_list_replicate power2_eq_square field_simps)
  show ?thesis
    unfolding sample_stddev_def m v ..
qed

lemma stddev_example_differ:
  "population_stddev (ln 2 # replicate 18 0) * sqrt 252 \<noteq> sample_stddev (ln 2 # replicate 18 0) * sqrt 252"
proof -
  have "ln (2 :: real) \<noteq> 0" by simp
  then show ?thesis unfolding population_example sample_example by simp
qed

lemma strategy_next_first_rank:
  assumes idle: "active_options s \<noteq> Some True"
    and pos: "\<forall>x \<in> set (close_hist s). 0 < x" "0 < bar_close b"
    and len: "length (close_hist s) = 251"
    and avg: "sum_list (drop (length (bar_atr_array b) - 20) (bar_atr_array b)) \<noteq> 0"
    and low: "min 1 (max 0 (bar_atr b /
                (2 * (sum_list (drop (length (bar_atr_array b) - 20) (bar_atr_array b)) / 20))))
              < iv_rank_min p"
  shows "\<exists>s'. strategy_next p s b = Inr s'"
proof -
  let ?w = "append_close (close_hist s) (bar_close b)"
  let ?s1 = "s\<lparr>close_hist := ?w\<rparr>"
  have posw: "\<forall>x \<in> set (close_hist ?s1). 0 < x"
    using pos set_append_close[of "close_hist s" "bar_close b"] by auto
  have lenw: "length ?w = 252" using len by (simp add: length_append_close)
  obtain s2 where s2: "calculate_historical_volatility ?s1 = Inr s2"
    using calculate_historical_volatility_returns[OF posw] by auto
  then have f2: "close_hist s2 = ?w \<and> active_options s2 = active_options s"
    using calculate_historical_volatility_frame[of ?s1 s2] by auto
  obtain s3 where s3: "estimate_implied_volatility s2 (bar_atr b) (bar_close b) (bar_atr_array b) = Inr s3"
    and f3: "active_options s3 = active_options s2"
    using f2 lenw pos(2) avg
    by (simp add: estimate_implied_volatility_def and_then_def py_div_def py_sqrt_def Let_def)
  have "iv_rank s3 < iv_rank_min p"
    using estimate_implied_volatility_iv_rank[OF s3] f2 lenw low by simp
  then have c: "consider_new_iron_condor p s3 (bar_date b) (bar_close b) (bar_portfolio_value b) = Inr s3"
    by (simp add: consider_new_iron_condor_def)
  have "strategy_next p s b = Inr s3"
    unfolding strategy_next_def Let_def
    using lenw s2 s3 idle f2 f3 c by (simp add: and_then_def)
  then show ?thesis by blast
qed

section \<open>The 20-period historical volatility\<close>

text \<open>
  C8, as stated, fails: the code divides the sum of the squared deviations by the number of
  returns (19), which is the population standard deviation, not the sample standard
  deviation (divisor 18). After nineteen closes of 1 and a close of 2 the two differ.
\<close>

theorem historical_volatility_counterexample:
  "\<not> isl (calculate_historical_volatility (init\<lparr>close_hist := replicate 19 1 @ [2]\<rparr>))
   \<and> hv_20 (projr (calculate_historical_volatility (init\<lparr>close_hist := replicate 19 1 @ [2]\<rparr>)))
       \<noteq> sample_stddev (recent_log_returns (replicate 19 1 @ [2])) * sqrt 252"
proof -
  let ?s = "init\<lparr>close_hist := replicate 19 1 @ [2]\<rparr>"
  have "\<forall>x \<in> set (close_hist ?s). (0 :: real) < x" by auto
  then obtain s' where s': "calculate_historical_volatility ?s = Inr s'"
    using calculate_historical_volatility_returns by blast
  have "hv_20 s' = population_stddev (recent_log_returns (replicate 19 1 @ [2])) * sqrt 252"
    using calculate_historical_volatility_result[OF s'] by simp
  then have "hv_20 s' \<noteq> sample_stddev (recent_log_returns (replicate 19 1 @ [2])) * sqrt 252"
    unfolding recent_log_returns_example using stddev_example_differ by simp
  then show ?thesis unfolding s' by simp
qed

text \<open>
  C8, amended. The historical volatility starts at 0. Along a run each step that returns
  appends the close to the window (dropping the oldest beyond 252); while the window holds
  fewer than 20 closes the volatility keeps its prior value, which is 0; once it holds at
  least 20 it is the population standard deviation (divisor 19) of the 19 log returns
  between the most recent 20 closes, times \<open>sqrt 252\<close>.
\<close>

theorem historical_volatility_update:
  assumes "reachable p s" and "strategy_next p s b = Inr s'"
  shows "hv_20 init = 0
     \<and> close_hist s' = append_close (close_hist s) (bar_close b)
     \<and> hv_20 s' =
         (if 20 \<le> length (close_hist s')
          then population_stddev (recent_log_returns (close_hist s')) * sqrt 252
          else hv_20 s)
     \<and> (length (close_hist s') < 20 \<longrightarrow> hv_20 s' = 0)"
proof -
  have "reachable p s'" using assms by (rule reachable.step)
  from reachable_invariant[OF this] have "length (close_hist s') < 20 \<longrightarrow> hv_20 s' = 0"
    by simp
  then show ?thesis
    using strategy_next_close_hist[OF assms(2)] strategy_next_hv_20[OF assms(2)]
    by (simp add: init_def)
qed

theorem historical_volatility_update_witness:
  "\<exists>s s'. reachable default_params s \<and> close_hist s = replicate 19 1
      \<and> strategy_next default_params s
           \<lparr>bar_date = 738886, bar_close = 2, bar_atr = 1, bar_atr_array = [],
            bar_portfolio_value = 100000\<rparr> = Inr s'
      \<and> close_hist s' = replicate 19 1 @ [2]
      \<and> hv_20 s' = sqrt ((18 / 361) * (ln 2)\<^sup>2) * sqrt 252"
proof -
  let ?b = "\<lparr>bar_date = 738886, bar_close = 2, bar_atr = 1, bar_atr_array = [],
            bar_portfolio_value = 100000\<rparr>"
  obtain s where s: "reachable default_params s" "close_hist s = replicate 19 1"
    "active_options s = None"
    using reachable_warm_up[of default_params 1 19] by (auto simp add: default_params_def)
  have "iv_rank s = 0" using reachable_invariant[OF s(1)] s(2) by simp
  then obtain s' where s': "strategy_next default_params s ?b = Inr s'"
    using strategy_next_idle_returns[of s default_params ?b] s
    by (auto simp add: default_params_def)
  have w: "append_close (replicate 19 1) 2 = replicate 19 1 @ [2 :: real]"
    by (simp add: append_close_def)
  have "close_hist s' = replicate 19 1 @ [2]
      \<and> hv_20 s' = sqrt ((18 / 361) * (ln 2)\<^sup>2) * sqrt 252"
    using historical_volatility_update[OF s(1) s'] s(2)
    by (simp add: w recent_log_returns_example population_example)
  with s s' show ?thesis by blast
qed

section \<open>The IV rank\<close>

text \<open>
  C9. The IV rank starts at 0; in every state of a run it lies between 0 and 1, and it is
  still 0 while fewer than 252 closes are held. An update happens only with at least 252
  closes and sets the rank to the ratio of the current ATR to twice the average of the last
  20 ATR values, clamped to the interval from 0 to 1, whatever the ATR values are.
\<close>

theorem iv_rank_in_unit_interval:
  "iv_rank init = 0
   \<and> (reachable p s \<longrightarrow>
        0 \<le> iv_rank s \<and> iv_rank s \<le> 1 \<and> (length (close_hist s) < 252 \<longrightarrow> iv_rank s = 0))
   \<and> (estimate_implied_volatility s atr spot atr_array = Inr s' \<longrightarrow>
        iv_rank s' =
          (if 252 \<le> length (close_hist s)
           then min 1 (max 0 (atr / (2 * (sum_list (drop (length atr_array - 20) atr_array) / 20))))
           else iv_rank s)
        \<and> (252 \<le> length (close_hist s) \<longrightarrow> 0 \<le> iv_rank s' \<and> iv_rank s' \<le> 1))"
  using reachable_invariant[of p s] estimate_implied_volatility_iv_rank[of s atr spot atr_array s']
  by (auto simp add: init_def)

theorem iv_rank_in_unit_interval_witness:
  "(\<exists>s. reachable default_params s \<and> length (close_hist s) = 252 \<and> iv_rank s = 1 / 20
        \<and> 0 \<le> iv_rank s \<and> iv_rank s \<le> 1)
   \<and> (\<exists>s'. estimate_implied_volatility (init\<lparr>close_hist := replicate 252 100\<rparr>) (10 ^ 9) 100
              (replicate 20 1) = Inr s' \<and> iv_rank s' = 1)
   \<and> (\<exists>s'. estimate_implied_volatility (init\<lparr>close_hist := replicate 252 100\<rparr>) (- 5) 100
              (replicate 20 1) = Inr s' \<and> iv_rank s' = 0)"
proof (intro conjI)
  let ?b = "\<lparr>bar_date = 738886, bar_close = 100, bar_atr = 1, bar_atr_array = replicate 20 10,
            bar_portfolio_value = 100000\<rparr>"
  obtain s where s: "reachable default_params s" "close_hist s = replicate 251 100"
    "active_options s = None"
    using reachable_warm_up[of default_params 100 251] by (auto simp add: default_params_def)
  obtain s' where s': "strategy_next default_params s ?b = Inr s'"
    using strategy_next_first_rank[of s ?b default_params] s
    by (auto simp add: default_params_def sum_list_replicate)
  have r: "reachable default_params s'" using s(1) s' by (rule reachable.step)
  have len: "length (close_hist s') = 252"
    using strategy_next_close_hist[OF s'] s(2) by (simp add: length_append_close)
  have "iv_rank s' = 1 / 20"
    using strategy_next_iv_rank[OF s'] len by (simp add: sum_list_replicate)
  then show "\<exists>s. reachable default_params s \<and> length (close_hist s) = 252 \<and> iv_rank s = 1 / 20
        \<and> 0 \<le> iv_rank s \<and> iv_rank s \<le> 1"
    using r len iv_rank_in_unit_interval[of default_params s'] by (intro exI[of _ s']) simp
next
  let ?s = "init\<lparr>close_hist := replicate 252 100\<rparr>"
  obtain s' where s': "estimate_implied_volatility ?s (10 ^ 9) 100 (replicate 20 1) = Inr s'"
    by (simp add: estimate_implied_volatility_def and_then_def py_div_def py_sqrt_def Let_def
        sum_list_replicate)
  then show "\<exists>s'. estimate_implied_volatility ?s (10 ^ 9) 100 (replicate 20 1) = Inr s'
      \<and> iv_rank s' = 1"
    using iv_rank_in_unit_interval[of default_params ?s "10 ^ 9" 100 "replicate 20 1" s']
    by (simp add: sum_list_replicate)
next
  let ?s = "init\<lparr>close_hist := replicate 252 100\<rparr>"
  obtain s' where s': "estimate_implied_volatility ?s (- 5) 100 (replicate 20 1) = Inr s'"
    by (simp add: estimate_implied_volatility_def and_then_def py_div_def py_sqrt_def Let_def
        sum_list_replicate)
  then show "\<exists>s'. estimate_implied_volatility ?s (- 5) 100 (replicate 20 1) = Inr s'
      \<and> iv_rank s' = 0"
    using iv_rank_in_unit_interval[of default_params ?s "- 5" 100 "replicate 20 1" s']
    by (simp add: sum_list_replicate)
qed


end
